theory Spec2Isabelle
  imports Complex_Main
begin

section \<open>The BHOOMI dashboard script (BHM2.0.py)\<close>

text \<open>
  The dashboard is one script that Streamlit re-runs from top to bottom on every tick
  (timer, button press, change of the data source). The only value that survives from
  one run to the next is \<^verbatim>\<open>st.session_state.df\<close>. The model below follows the
  script section by section: the data-source branches, the metrics, the trend bands,
  the alerts log, the restricted-area detection and the two alert buttons.

  Conventions of the model:
  \<^item> A finite float read from the data is written as the real number it denotes. No
    float arithmetic is modelled: a float that a library call computes is a value of
    the type \<open>float64\<close> (NaN, the two infinities, or a finite value), and the
    interpolation inside \<^verbatim>\<open>quantile\<close> is a parameter of the model.
  \<^item> Message literals are written without their leading pictograph, and the three
    risk labels and the three action labels, which the script writes as a pictograph
    followed by a word, are the constructors of two enumerations.
  \<^item> Random draws are inputs of a tick; what a draw can be is a set of values.
\<close>

subsection \<open>Risk status and action (lines 162 and 193-194)\<close>

text \<open>
  \<^verbatim>\<open>risk_status = "HIGH" if current_risk > 70 else "MEDIUM" if current_risk > 40 else "LOW"\<close>
\<close>

datatype SeverityTier = HIGH | MEDIUM | LOW

definition risk_status :: "int \<Rightarrow> SeverityTier" where
  "risk_status current_risk =
     (if current_risk > 70 then HIGH else if current_risk > 40 then MEDIUM else LOW)"

text \<open>
  \<^verbatim>\<open>np.where(alerts["Risk"] > 70, "Evacuation", np.where(alerts["Risk"] > 40, "Warning", "Monitoring"))\<close>,
  for one cell of the column and for the whole column.
\<close>

datatype Action = Evacuation | Warning | Monitoring

definition alert_action :: "int \<Rightarrow> Action" where
  "alert_action risk =
     (if risk > 70 then Evacuation else if risk > 40 then Warning else Monitoring)"

definition alerts_Action :: "int list \<Rightarrow> Action list" where
  "alerts_Action risks = map alert_action risks"

text \<open>The classifier of the specification pairs the two labels of one score.\<close>

definition classify :: "int \<Rightarrow> SeverityTier \<times> Action" where
  "classify s = (risk_status s, alert_action s)"

subsection \<open>Restricted-area detection (lines 198-200)\<close>

text \<open>
  \<^verbatim>\<open>restricted_alerts = [zone for zone in worker_zones if zone in restricted_areas]\<close>

  \<open>worker_zones\<close> holds the zone of worker \<open>i\<close> at position \<open>i\<close>.
\<close>

definition restricted_areas :: "string list" where
  "restricted_areas = [''Zone A'', ''Zone C'', ''Zone E'']"

definition restricted_alerts :: "string list \<Rightarrow> string list \<Rightarrow> string list" where
  "restricted_alerts worker_zones restricted =
     filter (\<lambda>zone. zone \<in> set restricted) worker_zones"

text \<open>
  The detector as the specification words it: each restricted zone that has at least
  one worker, once, in the order in which the zones first appear in the assignments.
\<close>

fun first_seen :: "'a list \<Rightarrow> 'a list" where
  "first_seen [] = []"
| "first_seen (x # xs) = x # filter (\<lambda>y. y \<noteq> x) (first_seen xs)"

definition detect_spec :: "string list \<Rightarrow> string list \<Rightarrow> string list" where
  "detect_spec worker_zones restricted =
     filter (\<lambda>zone. zone \<in> set restricted) (first_seen worker_zones)"

subsection \<open>The alert buttons (lines 209-217)\<close>

datatype notice = St_success string | St_info string | St_warning string | St_error string

fun join :: "string \<Rightarrow> string list \<Rightarrow> string" where
  "join sep [] = []"
| "join sep [x] = x"
| "join sep (x # y # ys) = x @ sep @ join sep (y # ys)"

definition alert_workers_button :: "string list \<Rightarrow> notice" where
  "alert_workers_button alerts =
     (if alerts \<noteq> []
      then St_success (''Alert sent to workers in restricted zones: '' @ join '', '' alerts)
      else St_info ''No workers currently near restricted areas to alert.'')"

definition send_alert_now_button :: notice where
  "send_alert_now_button =
     St_success ''Alert sent to all registered numbers! (Simulated in demo mode)''"

text \<open>
  The dispatcher of the specification: an event is a trigger with a payload, and the
  outcome is read off the notice that the button handler shows.
\<close>

datatype trigger = ZoneIntrusion | ManualRequest

datatype Outcome = Sent | Suppressed_NoIntrusion

fun outcome_of :: "notice \<Rightarrow> Outcome" where
  "outcome_of (St_success _) = Sent"
| "outcome_of _ = Suppressed_NoIntrusion"

fun dispatch :: "trigger \<Rightarrow> string list \<Rightarrow> Outcome" where
  "dispatch ZoneIntrusion payload = outcome_of (alert_workers_button payload)"
| "dispatch ManualRequest payload = outcome_of send_alert_now_button"

subsection \<open>Frames, readings and exceptions\<close>

text \<open>
  A data frame is its columns in order, each a name with its cells. \<^verbatim>\<open>df[col]\<close>
  raises KeyError for a name that is not a column, and \<^verbatim>\<open>.iloc[-1]\<close> raises
  IndexError on a column without rows.
\<close>

datatype cell = StrCell string | IntCell int | FltCell real

type_synonym frame = "(string \<times> cell list) list"

datatype exn =
  FileNotFoundError | EmptyDataError | ParserError | KeyError string | IndexError | ValueError

datatype 'a outcome = Returned 'a | Raised exn

definition getitem :: "frame \<Rightarrow> string \<Rightarrow> cell list outcome" where
  "getitem df col = (case map_of df col of None \<Rightarrow> Raised (KeyError col) | Some v \<Rightarrow> Returned v)"

definition iloc_last :: "cell list \<Rightarrow> cell outcome" where
  "iloc_last xs = (if xs = [] then Raised IndexError else Returned (last xs))"

text \<open>\<^verbatim>\<open>current_risk = df["Risk"].iloc[-1]\<close> (line 161)\<close>

definition current_risk :: "frame \<Rightarrow> cell outcome" where
  "current_risk df =
     (case getitem df ''Risk'' of Raised e \<Rightarrow> Raised e | Returned col \<Rightarrow> iloc_last col)"

text \<open>
  One row of the simulated frame, the dictionary \<open>new_data\<close> of lines 49-55. The frame
  kept in \<^verbatim>\<open>st.session_state.df\<close> is only ever built from such rows under the
  five column names of line 48, so it is represented by the list of its rows.
\<close>

record reading =
  Timestamp :: string
  Vibration :: real
  Slope :: real
  Weather :: string
  Risk :: int

definition to_frame :: "reading list \<Rightarrow> frame" where
  "to_frame rs =
     [(''Timestamp'', map (\<lambda>r. StrCell (Timestamp r)) rs),
      (''Vibration'', map (\<lambda>r. FltCell (Vibration r)) rs),
      (''Slope'', map (\<lambda>r. FltCell (Slope r)) rs),
      (''Weather'', map (\<lambda>r. StrCell (Weather r)) rs),
      (''Risk'', map (\<lambda>r. IntCell (Risk r)) rs)]"

text \<open>\<^verbatim>\<open>.tail(n)\<close>: the last \<open>n\<close> rows, in order; all of them when there are fewer.\<close>

definition tail :: "nat \<Rightarrow> 'a list \<Rightarrow> 'a list" where
  "tail n xs = drop (length xs - n) xs"

subsection \<open>What the synthetic source can draw (lines 49-55)\<close>

text \<open>
  \<^verbatim>\<open>np.random.randint(low, high)\<close> returns an integer from \<open>low\<close> (inclusive) to
  \<open>high\<close> (exclusive); \<^verbatim>\<open>np.random.choice(xs)\<close> returns an element of \<open>xs\<close>. The
  two normal draws can be any float and are not constrained here.
\<close>

definition randint :: "int \<Rightarrow> int \<Rightarrow> int set" where
  "randint low high = {low..<high}"

definition choice :: "'a list \<Rightarrow> 'a set" where
  "choice xs = set xs"

text \<open>
  The draw of \<^verbatim>\<open>np.random.randint\<close> is from the discrete uniform distribution on
  that half-open interval: each of its values has the same probability, every other
  integer has probability 0.
\<close>

definition randint_pmf :: "int \<Rightarrow> int \<Rightarrow> int \<Rightarrow> real" where
  "randint_pmf low high k =
     (if k \<in> randint low high then 1 / real (card (randint low high)) else 0)"

text \<open>\<^verbatim>\<open>"Risk": np.random.randint(0, 100)\<close> (line 54)\<close>

definition new_data_Risk :: "int set" where
  "new_data_Risk = randint 0 100"

definition new_data_Risk_pmf :: "int \<Rightarrow> real" where
  "new_data_Risk_pmf k = randint_pmf 0 100 k"

definition new_data_Weather :: "string set" where
  "new_data_Weather = choice [''Sunny'', ''Rainy'', ''Cloudy'', ''Windy'']"

text \<open>
  \<^verbatim>\<open>worker_zones = np.random.choice(["Zone A", ..., "Zone E"], size=5)\<close> (line 199):
  five draws, with repetition.
\<close>

definition worker_zones_possible :: "string list \<Rightarrow> bool" where
  "worker_zones_possible ws =
     (length ws = 5
      \<and> set ws \<subseteq> choice [''Zone A'', ''Zone B'', ''Zone C'', ''Zone D'', ''Zone E''])"

definition new_data_possible :: "reading \<Rightarrow> bool" where
  "new_data_possible r = (Risk r \<in> new_data_Risk \<and> Weather r \<in> new_data_Weather)"

subsection \<open>The data source (lines 27-57)\<close>

text \<open>
  The inputs of one run of the script: the selected radio button, what
  \<^verbatim>\<open>pd.read_csv("mine_sensor_data.csv")\<close> does, the uploader (\<open>None\<close> when no
  file has been supplied, otherwise what \<^verbatim>\<open>pd.read_csv(uploaded)\<close> does), and the
  row drawn for the simulated source.
\<close>

datatype mode = Simulated_Live_Data | Preloaded_CSV | Upload_CSV

record inputs =
  mode :: mode
  preloaded :: "frame outcome"
  uploaded :: "frame outcome option"
  new_data :: reading

text \<open>
  The session state is the value under the key \<open>df\<close>, \<open>None\<close> while the key is
  absent. A run of the data-source section ends in \<^verbatim>\<open>st.stop()\<close> after a notice,
  in an exception that nothing catches, or with the frame \<open>df\<close> that the rest of the
  script displays.
\<close>

type_synonym session_state = "reading list option"

text \<open>
  Lines 47-48: \<^verbatim>\<open>if "df" not in st.session_state\<close> the frame starts with the five
  columns and no rows.
\<close>

definition session_df :: "session_state \<Rightarrow> reading list" where
  "session_df st = (case st of None \<Rightarrow> [] | Some rows \<Rightarrow> rows)"

datatype source_result = Stopped notice | Crashed exn | Loaded "notice list" frame

definition data_source :: "inputs \<Rightarrow> session_state \<Rightarrow> session_state \<times> source_result" where
  "data_source i st =
     (case mode i of
        Preloaded_CSV \<Rightarrow>
          (case preloaded i of
             Returned df \<Rightarrow> (st, Loaded [St_success ''Preloaded CSV loaded successfully!''] df)
           | Raised e \<Rightarrow>
               (st, Stopped (St_error ''Preloaded file 'mine_sensor_data.csv' not found.'')))
      | Upload_CSV \<Rightarrow>
          (case uploaded i of
             Some (Returned df) \<Rightarrow>
               (st, Loaded [St_success ''Uploaded CSV loaded successfully!''] df)
           | Some (Raised e) \<Rightarrow> (st, Crashed e)
           | None \<Rightarrow> (st, Stopped (St_warning ''Please upload a CSV to continue.'')))
      | Simulated_Live_Data \<Rightarrow>
          (let st1 = session_df st @ [new_data i]
           in (Some st1, Loaded [] (to_frame (tail 50 st1)))))"

text \<open>Successive runs of the script in one session, with the result of each run.\<close>

fun run :: "inputs list \<Rightarrow> session_state \<Rightarrow> session_state \<times> source_result list" where
  "run [] st = (st, [])"
| "run (i # is) st =
     (case data_source i st of (st1, r) \<Rightarrow>
        (case run is st1 of (st2, rs) \<Rightarrow> (st2, r # rs)))"

text \<open>A run with the simulated source selected and \<open>r\<close> as the row drawn.\<close>

definition simulated :: "reading \<Rightarrow> inputs" where
  "simulated r =
     \<lparr>mode = Simulated_Live_Data, preloaded = Raised FileNotFoundError,
      uploaded = None, new_data = r\<rparr>"

subsection \<open>The reads of the frame (lines 161-186)\<close>

text \<open>
  After the data source the script reads the columns of \<open>df\<close> in this order: the last
  Risk (line 161), the last Timestamp (line 166), the last Weather (line 167), the
  Vibration column (line 179) and the Slope column (line 185). Between the reads it
  calls the libraries on what it has read: the comparison of line 162, the metrics of
  lines 164-167, the gauge of line 173 and the two trend charts with their quantiles
  (lines 178 and 184). Whether such a call raises on the data at hand is not in the
  source: \<open>lib n df\<close> is the exception, if any, of the library calls of line \<open>n\<close>.
  Nothing catches an exception here, so the run ends at the first one.
\<close>

definition required_columns :: "string list" where
  "required_columns = [''Timestamp'', ''Vibration'', ''Slope'', ''Weather'', ''Risk'']"

definition raised :: "'a outcome \<Rightarrow> exn option" where
  "raised r = (case r of Raised e \<Rightarrow> Some e | Returned _ \<Rightarrow> None)"

definition last_of :: "frame \<Rightarrow> string \<Rightarrow> cell outcome" where
  "last_of df col =
     (case getitem df col of Raised e \<Rightarrow> Raised e | Returned c \<Rightarrow> iloc_last c)"

fun first_exn :: "exn option list \<Rightarrow> exn option" where
  "first_exn [] = None"
| "first_exn (None # rest) = first_exn rest"
| "first_exn (Some e # rest) = Some e"

definition steps :: "(nat \<Rightarrow> frame \<Rightarrow> exn option) \<Rightarrow> frame \<Rightarrow> exn option list" where
  "steps lib df =
     [raised (current_risk df), lib 162 df, lib 164 df,
      raised (last_of df ''Timestamp''), lib 166 df,
      raised (last_of df ''Weather''), lib 167 df, lib 173 df,
      raised (getitem df ''Vibration''), lib 178 df,
      raised (getitem df ''Slope''), lib 184 df]"

definition render :: "(nat \<Rightarrow> frame \<Rightarrow> exn option) \<Rightarrow> frame \<Rightarrow> exn option" where
  "render lib df = first_exn (steps lib df)"

subsection \<open>Trend bands (lines 84-87 and 178-186)\<close>

text \<open>
  \<^verbatim>\<open>df[column].quantile(q)\<close>: \<open>q\<close> outside \<open>[0, 1]\<close> raises ValueError; an
  empty column gives NaN; otherwise the result is the float that the library's linear
  interpolation computes from the values and \<open>q\<close> in double-precision arithmetic,
  which can overflow to an infinity. That computation is not in the source and is the
  parameter \<open>interp\<close>. \<^verbatim>\<open>.min()\<close> and \<^verbatim>\<open>.max()\<close> return NaN for an empty
  column and otherwise one of the values. The column is taken as its finite numeric
  values.
\<close>

datatype float64 = NaN | PosInf | NegInf | Fin real

definition quantile :: "(real list \<Rightarrow> real \<Rightarrow> float64) \<Rightarrow> real list \<Rightarrow> real \<Rightarrow> float64 outcome" where
  "quantile interp vals q =
     (if q < 0 \<or> 1 < q then Raised ValueError
      else if vals = [] then Returned NaN
      else Returned (interp vals q))"

text \<open>
  An instance of the parameter for the runs in which the interpolation is never
  reached (a column without values, a level outside \<open>[0, 1]\<close>).
\<close>

definition interp_unused :: "real list \<Rightarrow> real \<Rightarrow> float64" where
  "interp_unused vals q = NaN"

definition series_min :: "real list \<Rightarrow> float64" where
  "series_min vals = (if vals = [] then NaN else Fin (Min (set vals)))"

definition series_max :: "real list \<Rightarrow> float64" where
  "series_max vals = (if vals = [] then NaN else Fin (Max (set vals)))"

text \<open>
  The four numbers that annotate a trend chart, in the order in which the script
  evaluates them: the two quantiles as arguments of \<open>trend_chart\<close>, then the minimum
  and the maximum inside it.
\<close>

definition band :: "(real list \<Rightarrow> real \<Rightarrow> float64) \<Rightarrow> real list \<Rightarrow> real \<Rightarrow> real
    \<Rightarrow> (float64 \<times> float64 \<times> float64 \<times> float64) outcome" where
  "band interp vals low_q high_q =
     (case quantile interp vals low_q of
        Raised e \<Rightarrow> Raised e
      | Returned low \<Rightarrow>
          (case quantile interp vals high_q of
             Raised e \<Rightarrow> Raised e
           | Returned high \<Rightarrow> Returned (low, high, series_min vals, series_max vals)))"

definition trend_chart_band :: "(real list \<Rightarrow> real \<Rightarrow> float64) \<Rightarrow> real list
    \<Rightarrow> (float64 \<times> float64 \<times> float64 \<times> float64) outcome" where
  "trend_chart_band interp vals = band interp vals (3 / 10) (7 / 10)"

section \<open>Properties\<close>

subsection \<open>Risk classifier\<close>

text \<open>
  C1. For every integer score the classifier answers (HIGH, Evacuation) exactly when
  the score is above 70, (MEDIUM, Warning) exactly when it is above 40 and at most 70,
  and (LOW, Monitoring) exactly when it is at most 40. The boundaries fall to the lower
  tier: 70 is MEDIUM, 71 is HIGH, 40 is LOW, 41 is MEDIUM. No score is rejected: the
  equivalences hold for every integer, also outside 0..100.
\<close>

theorem classify_tiers:
  "(classify s = (HIGH, Evacuation)) = (s > 70)
   \<and> (classify s = (MEDIUM, Warning)) = (40 < s \<and> s \<le> 70)
   \<and> (classify s = (LOW, Monitoring)) = (s \<le> 40)
   \<and> classify 70 = (MEDIUM, Warning) \<and> classify 71 = (HIGH, Evacuation)
   \<and> classify 40 = (LOW, Monitoring) \<and> classify 41 = (MEDIUM, Warning)
   \<and> classify (- 5) = (LOW, Monitoring) \<and> classify 250 = (HIGH, Evacuation)
   \<and> alerts_Action risks = map (\<lambda>r. snd (classify r)) risks"
  by (simp add: classify_def risk_status_def alert_action_def alerts_Action_def)

subsection \<open>Zone-intrusion detection\<close>

lemma set_first_seen: "set (first_seen xs) = set xs"
  by (induction xs) auto

lemma distinct_first_seen: "distinct (first_seen xs)"
  by (induction xs) (auto simp: set_first_seen)

lemma first_seen_filter: "first_seen (filter P xs) = filter P (first_seen xs)"
proof (induction xs)
  case Nil
  show ?case by simp
next
  case (Cons x xs)
  have comm: "filter (\<lambda>y. y \<noteq> x) (filter P (first_seen xs))
      = filter P (filter (\<lambda>y. y \<noteq> x) (first_seen xs))"
    by (simp add: conj_commute)
  have drop_x: "\<not> P x \<Longrightarrow>
      filter P (filter (\<lambda>y. y \<noteq> x) (first_seen xs)) = filter P (first_seen xs)"
    by (auto intro: filter_cong)
  show ?case using Cons.IH comm drop_x by auto
qed

lemma count_list_filter: "count_list (filter P xs) z = (if P z then count_list xs z else 0)"
  by (induction xs) auto

text \<open>
  C3, as stated, fails. With two of the five workers in Zone A the detection lists
  Zone A twice, while the restricted zones that have at least one worker, each once in
  first-appearance order, are Zone A and Zone C.
\<close>

theorem restricted_alerts_repeats:
  "worker_zones_possible [''Zone A'', ''Zone B'', ''Zone A'', ''Zone D'', ''Zone C'']
   \<and> restricted_alerts [''Zone A'', ''Zone B'', ''Zone A'', ''Zone D'', ''Zone C''] restricted_areas
       = [''Zone A'', ''Zone A'', ''Zone C'']
   \<and> detect_spec [''Zone A'', ''Zone B'', ''Zone A'', ''Zone D'', ''Zone C''] restricted_areas
       = [''Zone A'', ''Zone C'']
   \<and> restricted_alerts [''Zone A'', ''Zone B'', ''Zone A'', ''Zone D'', ''Zone C''] restricted_areas
       \<noteq> detect_spec [''Zone A'', ''Zone B'', ''Zone A'', ''Zone D'', ''Zone C''] restricted_areas"
  by (simp add: restricted_alerts_def detect_spec_def restricted_areas_def
        worker_zones_possible_def choice_def)

lemma filter_by_index:
  "filter keep zs = map (nth zs) [i \<leftarrow> [0..<length zs]. keep (zs ! i)]"
proof -
  have "filter keep (map (nth zs) [0..<length zs])
      = map (nth zs) [i \<leftarrow> [0..<length zs]. keep (zs ! i)]"
    by (simp add: filter_map o_def)
  then show ?thesis by (simp add: map_nth)
qed

text \<open>
  C3, amended. The detection lists, in assignment order, the zone of each assignment
  whose zone is restricted, one entry per such assignment: it is the zones at the
  positions of \<open>worker_zones\<close> that hold a restricted zone, taken in increasing
  position. The zones that occur in it are exactly the restricted zones that have at
  least one worker, and once the repeats after a first occurrence are dropped, the list
  is those zones, each once, in the order in which the zones first appear in the
  assignments. No assignments give the empty list for any restricted set, one worker in
  Zone A gives [Zone A] and one worker in Zone B gives the empty list when Zone A and
  Zone C are restricted; workers in zones A, C, A, B, D give [A, C, A].
\<close>

theorem restricted_alerts_zones:
  "restricted_alerts ws rs = map (nth ws) [i \<leftarrow> [0..<length ws]. ws ! i \<in> set rs]
   \<and> set (restricted_alerts ws rs) = set ws \<inter> set rs
   \<and> first_seen (restricted_alerts ws rs) = detect_spec ws rs
   \<and> distinct (detect_spec ws rs)
   \<and> restricted_alerts [] rs = []
   \<and> restricted_alerts [''Zone A''] [''Zone A'', ''Zone C''] = [''Zone A'']
   \<and> restricted_alerts [''Zone B''] [''Zone A'', ''Zone C''] = []
   \<and> restricted_alerts [''Zone A'', ''Zone C'', ''Zone A'', ''Zone B'', ''Zone D''] restricted_areas
       = [''Zone A'', ''Zone C'', ''Zone A'']"
proof -
  have by_position:
    "restricted_alerts ws rs = map (nth ws) [i \<leftarrow> [0..<length ws]. ws ! i \<in> set rs]"
    unfolding restricted_alerts_def by (rule filter_by_index)
  have rest: "set (restricted_alerts ws rs) = set ws \<inter> set rs
      \<and> first_seen (restricted_alerts ws rs) = detect_spec ws rs
      \<and> distinct (detect_spec ws rs)
      \<and> restricted_alerts [] rs = []
      \<and> restricted_alerts [''Zone A''] [''Zone A'', ''Zone C''] = [''Zone A'']
      \<and> restricted_alerts [''Zone B''] [''Zone A'', ''Zone C''] = []"
    by (auto simp: restricted_alerts_def detect_spec_def first_seen_filter distinct_first_seen)
  have example: "restricted_alerts [''Zone A'', ''Zone C'', ''Zone A'', ''Zone B'', ''Zone D'']
      restricted_areas = [''Zone A'', ''Zone C'', ''Zone A'']"
    by (simp add: restricted_alerts_def restricted_areas_def)
  show ?thesis using by_position rest example by blast
qed

text \<open>
  C10. The detection has one entry per worker whose zone is restricted: its length is
  the number of positions of \<open>worker_zones\<close> that hold a restricted zone, and a
  restricted zone occupied by k workers appears k times (a zone that is not restricted
  does not appear).
\<close>

theorem restricted_alerts_length:
  "length (restricted_alerts ws rs) = card {i. i < length ws \<and> ws ! i \<in> set rs}
   \<and> count_list (restricted_alerts ws rs) z = (if z \<in> set rs then count_list ws z else 0)"
  by (simp add: restricted_alerts_def length_filter_conv_card count_list_filter)

subsection \<open>Alert dispatch\<close>

text \<open>
  C4. A zone-intrusion event is sent exactly when its payload is not empty and is
  suppressed otherwise; a manual request is sent whatever its payload.
\<close>

theorem dispatch_outcomes:
  "(dispatch ZoneIntrusion payload = Sent) = (payload \<noteq> [])
   \<and> (dispatch ZoneIntrusion payload = Suppressed_NoIntrusion) = (payload = [])
   \<and> dispatch ManualRequest payload = Sent
   \<and> dispatch ZoneIntrusion [] = Suppressed_NoIntrusion
   \<and> dispatch ZoneIntrusion [''Zone A''] = Sent"
  by (simp add: alert_workers_button_def send_alert_now_button_def)

subsection \<open>The synthetic source\<close>

lemma card_randint: "card (randint low high) = nat (high - low)"
  by (simp add: randint_def)

lemma randint_pmf_value:
  "randint_pmf low high k = (if low \<le> k \<and> k < high then 1 / real_of_int (high - low) else 0)"
  by (auto simp: randint_pmf_def card_randint randint_def)

text \<open>
  C8, as stated, fails: 100 is not among the values that the risk draw of line 54 can
  take and has probability 0, so no row of the synthetic source has risk 100.
\<close>

theorem risk_100_never_drawn:
  "100 \<notin> new_data_Risk
   \<and> new_data_Risk_pmf 100 = 0
   \<and> \<not> new_data_possible
        \<lparr>Timestamp = ''12:00:00'', Vibration = 1 / 2, Slope = 45, Weather = ''Sunny'', Risk = 100\<rparr>"
  by (simp add: new_data_Risk_def new_data_Risk_pmf_def randint_pmf_value randint_def
        new_data_possible_def)

text \<open>
  C8, amended. The risk of a synthetic row is drawn uniformly from the integers 0..99:
  each of them is a possible value, each with the same probability 1/100, the
  probabilities add up to 1, and nothing else (100 in particular) can be drawn. The
  row that a simulated run appends to the window is the row drawn, so its risk is
  within 0..99.
\<close>

theorem new_data_risk_range:
  "(k \<in> new_data_Risk) = (0 \<le> k \<and> k \<le> 99)
   \<and> new_data_Risk_pmf k = (if 0 \<le> k \<and> k \<le> 99 then 1 / 100 else 0)
   \<and> (k \<in> new_data_Risk) = (0 < new_data_Risk_pmf k)
   \<and> (\<Sum>j\<in>new_data_Risk. new_data_Risk_pmf j) = 1
   \<and> new_data_possible r = (0 \<le> Risk r \<and> Risk r \<le> 99
        \<and> Weather r \<in> {''Sunny'', ''Rainy'', ''Cloudy'', ''Windy''})
   \<and> (new_data_possible r \<longrightarrow>
        fst (data_source (simulated r) st) = Some (session_df st @ [r])
        \<and> 0 \<le> Risk (last (session_df (fst (data_source (simulated r) st))))
        \<and> Risk (last (session_df (fst (data_source (simulated r) st)))) \<le> 99)"
proof -
  have support: "(k \<in> new_data_Risk) = (0 \<le> k \<and> k \<le> 99)"
    by (auto simp: new_data_Risk_def randint_def)
  have pmf: "\<And>j. new_data_Risk_pmf j = (if 0 \<le> j \<and> j \<le> 99 then 1 / 100 else 0)"
    by (auto simp: new_data_Risk_pmf_def randint_pmf_value)
  have positive: "(k \<in> new_data_Risk) = (0 < new_data_Risk_pmf k)"
    by (simp add: support pmf)
  have "(\<Sum>j\<in>new_data_Risk. new_data_Risk_pmf j) = (\<Sum>j\<in>{0..<100::int}. 1 / 100)"
    by (rule sum.cong) (auto simp: new_data_Risk_def randint_def pmf)
  then have total: "(\<Sum>j\<in>new_data_Risk. new_data_Risk_pmf j) = 1"
    by simp
  have possible: "new_data_possible r = (0 \<le> Risk r \<and> Risk r \<le> 99
        \<and> Weather r \<in> {''Sunny'', ''Rainy'', ''Cloudy'', ''Windy''})"
    by (auto simp: new_data_Risk_def randint_def new_data_possible_def new_data_Weather_def
          choice_def)
  have appended: "fst (data_source (simulated r) st) = Some (session_df st @ [r])"
    by (simp add: data_source_def simulated_def Let_def)
  have last_row: "last (session_df (fst (data_source (simulated r) st))) = r"
    by (simp add: appended session_df_def)
  show ?thesis
    using support pmf[of k] positive total possible appended last_row by simp
qed

text \<open>
  The hypothesis of C8 at a row with the largest risk that can be drawn, appended to an
  empty window.
\<close>

theorem new_data_risk_range_witness:
  "new_data_possible
     \<lparr>Timestamp = ''12:00:00'', Vibration = 1 / 2, Slope = 45, Weather = ''Sunny'', Risk = 99\<rparr>
   \<and> new_data_Risk_pmf 99 = 1 / 100
   \<and> fst (data_source (simulated
        \<lparr>Timestamp = ''12:00:00'', Vibration = 1 / 2, Slope = 45, Weather = ''Sunny'', Risk = 99\<rparr>)
        None)
     = Some [\<lparr>Timestamp = ''12:00:00'', Vibration = 1 / 2, Slope = 45, Weather = ''Sunny'',
               Risk = 99\<rparr>]"
  using new_data_risk_range [of 99
      "\<lparr>Timestamp = ''12:00:00'', Vibration = 1 / 2, Slope = 45, Weather = ''Sunny'', Risk = 99\<rparr>"
      None]
  by (simp add: session_df_def)

subsection \<open>The rolling window\<close>

lemma run_append:
  "run (xs @ ys) st =
     (case run xs st of (st1, rs) \<Rightarrow> (case run ys st1 of (st2, rs') \<Rightarrow> (st2, rs @ rs')))"
  by (induction xs arbitrary: st) (auto split: prod.splits)

lemma data_source_simulated:
  "mode i = Simulated_Live_Data \<Longrightarrow>
     data_source i st =
       (Some (session_df st @ [new_data i]),
        Loaded [] (to_frame (tail 50 (session_df st @ [new_data i]))))"
  by (simp add: data_source_def Let_def)

lemma data_source_csv:
  "mode i \<noteq> Simulated_Live_Data \<Longrightarrow> fst (data_source i st) = st"
  by (cases "mode i") (auto simp: data_source_def split: outcome.splits option.splits)

lemma run_simulated:
  "\<forall>i\<in>set ticks. mode i = Simulated_Live_Data \<Longrightarrow>
     session_df (fst (run ticks st)) = session_df st @ map new_data ticks
     \<and> (ticks \<noteq> [] \<longrightarrow>
          fst (run ticks st) = Some (session_df st @ map new_data ticks)
          \<and> last (snd (run ticks st))
              = Loaded [] (to_frame (tail 50 (session_df st @ map new_data ticks))))"
proof (induction ticks rule: rev_induct)
  case Nil
  show ?case by simp
next
  case (snoc i ticks)
  then have IH: "session_df (fst (run ticks st)) = session_df st @ map new_data ticks"
    and mi: "mode i = Simulated_Live_Data" by simp_all
  obtain st1 rs where r: "run ticks st = (st1, rs)" by (cases "run ticks st")
  show ?case using IH mi r
    by (simp add: run_append data_source_simulated session_df_def)
qed

lemma length_tail: "length (tail n xs) = min n (length xs)"
  by (simp add: tail_def)

lemma tail_succ: "length xs = Suc n \<Longrightarrow> tail n xs = tl xs"
  by (simp add: tail_def drop_Suc)

text \<open>
  C2, as stated, fails for the window that the session holds. After 51 appends
  \<^verbatim>\<open>st.session_state.df\<close> has 51 rows: line 56 appends to it and nothing ever
  removes a row from it.
\<close>

theorem window_store_grows:
  "fst (run (replicate 51 (simulated
      \<lparr>Timestamp = ''12:00:00'', Vibration = 1 / 2, Slope = 45, Weather = ''Sunny'', Risk = 10\<rparr>)) None)
   = Some (replicate 51
      \<lparr>Timestamp = ''12:00:00'', Vibration = 1 / 2, Slope = 45, Weather = ''Sunny'', Risk = 10\<rparr>)
   \<and> length (session_df (fst (run (replicate 51 (simulated
      \<lparr>Timestamp = ''12:00:00'', Vibration = 1 / 2, Slope = 45, Weather = ''Sunny'', Risk = 10\<rparr>)) None)))
     = 51"
proof -
  let ?i = "simulated \<lparr>Timestamp = ''12:00:00'', Vibration = 1 / 2, Slope = 45, Weather = ''Sunny'', Risk = 10\<rparr>"
  have m: "\<forall>i\<in>set (replicate 51 ?i). mode i = Simulated_Live_Data"
    by (simp add: simulated_def)
  have n: "new_data ?i = \<lparr>Timestamp = ''12:00:00'', Vibration = 1 / 2, Slope = 45, Weather = ''Sunny'', Risk = 10\<rparr>"
    by (simp add: simulated_def)
  have ne: "replicate 51 ?i \<noteq> []" by simp
  show ?thesis using run_simulated[OF m, of None] ne n
    by (simp add: session_df_def)
qed

text \<open>
  C2, amended. The window that the session holds grows by one row with every append
  and keeps every row appended, in order. What is bounded is the snapshot \<open>df\<close> that
  each run displays: it is the last 50 rows of the stored window in insertion order, so
  it never has more than 50 rows, and after 51 appends it is the stored window without
  its first row: it contains the newest row and, the rows being distinct, not the
  oldest.
\<close>

theorem window_snapshot:
  assumes sim: "\<forall>i\<in>set ticks. mode i = Simulated_Live_Data" and ne: "ticks \<noteq> []"
  shows "fst (run ticks None) = Some (map new_data ticks)
    \<and> last (snd (run ticks None)) = Loaded [] (to_frame (tail 50 (map new_data ticks)))
    \<and> tail 50 (map new_data ticks) = drop (length ticks - 50) (map new_data ticks)
    \<and> length (tail 50 (map new_data ticks)) = min 50 (length ticks)
    \<and> (length ticks = 51 \<longrightarrow>
         tail 50 (map new_data ticks) = tl (map new_data ticks)
         \<and> new_data (last ticks) \<in> set (tail 50 (map new_data ticks))
         \<and> (distinct (map new_data ticks) \<longrightarrow>
              new_data (hd ticks) \<notin> set (tail 50 (map new_data ticks))))"
proof -
  have st: "fst (run ticks None) = Some (map new_data ticks)"
    and sh: "last (snd (run ticks None)) = Loaded [] (to_frame (tail 50 (map new_data ticks)))"
    using run_simulated[OF sim, of None] ne by (simp_all add: session_df_def)
  have k1: "length ticks = 51 \<Longrightarrow> tail 50 (map new_data ticks) = tl (map new_data ticks)"
    by (rule tail_succ) simp
  have k2: "length ticks = 51 \<Longrightarrow> new_data (last ticks) \<in> set (tl (map new_data ticks))"
  proof -
    assume l: "length ticks = 51"
    then obtain i rest where t: "ticks = i # rest" and lr: "length rest = 50"
      by (cases ticks) auto
    from lr have "rest \<noteq> []" by auto
    then show ?thesis using t by simp
  qed
  have k3: "distinct (map new_data ticks) \<Longrightarrow> new_data (hd ticks) \<notin> set (tl (map new_data ticks))"
    using ne by (cases ticks) auto
  show ?thesis using st sh k1 k2 k3 by (simp add: length_tail) (simp add: tail_def)
qed

text \<open>
  The hypotheses of C2 at 51 simulated runs whose rows differ in their risk.
\<close>

theorem window_snapshot_witness:
  "(let ticks = map (\<lambda>k. simulated \<lparr>Timestamp = ''12:00:00'', Vibration = 1 / 2, Slope = 45,
                                      Weather = ''Sunny'', Risk = k\<rparr>) [0..50]
    in (\<forall>i\<in>set ticks. mode i = Simulated_Live_Data) \<and> ticks \<noteq> [] \<and> length ticks = 51
       \<and> distinct (map new_data ticks)
       \<and> fst (run ticks None) = Some (map new_data ticks)
       \<and> last (snd (run ticks None)) = Loaded [] (to_frame (tl (map new_data ticks)))
       \<and> length (tail 50 (map new_data ticks)) = 50
       \<and> new_data (last ticks) \<in> set (tail 50 (map new_data ticks))
       \<and> new_data (hd ticks) \<notin> set (tail 50 (map new_data ticks)))"
proof -
  define ticks where "ticks = map (\<lambda>k. simulated \<lparr>Timestamp = ''12:00:00'', Vibration = 1 / 2,
      Slope = 45, Weather = ''Sunny'', Risk = k\<rparr>) [0..50]"
  have h1: "\<forall>i\<in>set ticks. mode i = Simulated_Live_Data"
    by (simp add: ticks_def simulated_def)
  have h2: "ticks \<noteq> []" by (simp add: ticks_def)
  have h3: "length ticks = 51" by (simp add: ticks_def)
  have h4: "distinct (map new_data ticks)"
    by (simp add: ticks_def simulated_def distinct_map o_def inj_on_def)
  show ?thesis
    unfolding Let_def ticks_def[symmetric]
    using window_snapshot[OF h1 h2] h1 h2 h3 h4 by (auto simp: drop_Suc)
qed

subsection \<open>Switching the data source\<close>

text \<open>
  C5, as stated, fails. A row appended under the simulated source is still in the
  window after a run under the preloaded CSV source and the next simulated append: the
  window then has two rows, not one.
\<close>

theorem switch_carries_readings:
  "fst (run
     [simulated \<lparr>Timestamp = ''12:00:00'', Vibration = 1 / 2, Slope = 45, Weather = ''Sunny'', Risk = 10\<rparr>,
      \<lparr>mode = Preloaded_CSV,
        preloaded = Returned [(''Timestamp'', [StrCell ''09:00:00'']), (''Vibration'', [FltCell (2 / 5)]),
                              (''Slope'', [FltCell 44]), (''Weather'', [StrCell ''Rainy'']),
                              (''Risk'', [IntCell 55])],
        uploaded = None,
        new_data = \<lparr>Timestamp = ''12:01:00'', Vibration = 1 / 2, Slope = 45, Weather = ''Sunny'', Risk = 20\<rparr>\<rparr>,
      simulated \<lparr>Timestamp = ''12:02:00'', Vibration = 3 / 5, Slope = 46, Weather = ''Windy'', Risk = 80\<rparr>]
     None)
   = Some [\<lparr>Timestamp = ''12:00:00'', Vibration = 1 / 2, Slope = 45, Weather = ''Sunny'', Risk = 10\<rparr>,
           \<lparr>Timestamp = ''12:02:00'', Vibration = 3 / 5, Slope = 46, Weather = ''Windy'', Risk = 80\<rparr>]"
  by (simp add: data_source_def simulated_def session_df_def Let_def)

text \<open>
  C5, amended. A run under either CSV source leaves the stored window as it is and
  displays the loaded dataset alone, whatever the window holds. The next run under the
  simulated source appends to the window as it was before the switch, as if the CSV run
  had not happened.
\<close>

theorem source_switch_keeps_window:
  assumes c: "mode c \<noteq> Simulated_Live_Data" and i: "mode i = Simulated_Live_Data"
  shows "fst (data_source c st) = st
     \<and> snd (data_source c st) = snd (data_source c None)
     \<and> run [i] (fst (data_source c st)) = run [i] st
     \<and> fst (run [c, i] st) = Some (session_df st @ [new_data i])
     \<and> last (snd (run [c, i] st))
         = Loaded [] (to_frame (tail 50 (session_df st @ [new_data i])))"
proof -
  have keep: "fst (data_source c st) = st" using c by (rule data_source_csv)
  have shown: "snd (data_source c st) = snd (data_source c None)"
    using c by (cases "mode c") (auto simp: data_source_def split: outcome.splits option.splits)
  obtain r where r: "data_source c st = (st, r)" using keep by (cases "data_source c st") simp
  show ?thesis using keep shown r i by (simp add: data_source_simulated)
qed

text \<open>
  The hypotheses of C5 at an upload run between two simulated rows.
\<close>

theorem source_switch_keeps_window_witness:
  "(let c = \<lparr>mode = Upload_CSV, preloaded = Raised FileNotFoundError,
              uploaded = Some (Returned [(''Risk'', [IntCell 55])]),
              new_data = \<lparr>Timestamp = ''12:01:00'', Vibration = 1 / 2, Slope = 45,
                           Weather = ''Sunny'', Risk = 20\<rparr>\<rparr>;
        r1 = \<lparr>Timestamp = ''12:00:00'', Vibration = 1 / 2, Slope = 45, Weather = ''Sunny'', Risk = 10\<rparr>;
        r2 = \<lparr>Timestamp = ''12:02:00'', Vibration = 3 / 5, Slope = 46, Weather = ''Windy'', Risk = 80\<rparr>
    in mode c \<noteq> Simulated_Live_Data \<and> mode (simulated r2) = Simulated_Live_Data
       \<and> fst (data_source c (Some [r1])) = Some [r1]
       \<and> fst (run [c, simulated r2] (Some [r1])) = Some [r1, r2])"
proof -
  let ?c = "\<lparr>mode = Upload_CSV, preloaded = Raised FileNotFoundError,
              uploaded = Some (Returned [(''Risk'', [IntCell 55])]),
              new_data = \<lparr>Timestamp = ''12:01:00'', Vibration = 1 / 2, Slope = 45,
                           Weather = ''Sunny'', Risk = 20\<rparr>\<rparr>"
  let ?r1 = "\<lparr>Timestamp = ''12:00:00'', Vibration = 1 / 2, Slope = 45, Weather = ''Sunny'', Risk = 10\<rparr>"
  let ?r2 = "\<lparr>Timestamp = ''12:02:00'', Vibration = 3 / 5, Slope = 46, Weather = ''Windy'', Risk = 80\<rparr>"
  have c: "mode ?c \<noteq> Simulated_Live_Data" by simp
  have i: "mode (simulated ?r2) = Simulated_Live_Data" by (simp add: simulated_def)
  show ?thesis
    using source_switch_keeps_window[OF c i, of "Some [?r1]"] c i
    by (simp add: Let_def session_df_def simulated_def)
qed

subsection \<open>Loading a dataset\<close>

lemma first_exn_None_iff: "first_exn xs = None \<longleftrightarrow> (\<forall>x\<in>set xs. x = None)"
  by (induction xs rule: first_exn.induct) auto

lemma getitem_missing: "map_of df c = None \<Longrightarrow> raised (getitem df c) = Some (KeyError c)"
  by (simp add: getitem_def raised_def)

lemma last_of_missing: "map_of df c = None \<Longrightarrow> raised (last_of df c) = Some (KeyError c)"
  by (simp add: last_of_def getitem_def raised_def)

lemma current_risk_missing:
  "map_of df ''Risk'' = None \<Longrightarrow> raised (current_risk df) = Some (KeyError ''Risk'')"
  by (simp add: current_risk_def getitem_def raised_def)

lemma render_missing:
  assumes "c \<in> set required_columns" and "map_of df c = None"
  shows "render lib df \<noteq> None"
proof -
  have "Some (KeyError c) \<in> set (steps lib df)"
    using assms
    by (auto simp: required_columns_def steps_def getitem_missing last_of_missing
          current_risk_missing)
  then show ?thesis
    unfolding render_def first_exn_None_iff by blast
qed

text \<open>
  C9, as stated, fails. An uploaded dataset without a Risk column is loaded with a
  success notice; the run then ends in a KeyError that nothing catches, when line 161
  reads the column.
\<close>

theorem upload_missing_column_accepted:
  "data_source
     \<lparr>mode = Upload_CSV, preloaded = Raised FileNotFoundError,
      uploaded = Some (Returned [(''Timestamp'', [StrCell ''09:00:00'']),
                                 (''Vibration'', [FltCell (2 / 5)])]),
      new_data = \<lparr>Timestamp = ''12:01:00'', Vibration = 1 / 2, Slope = 45,
                   Weather = ''Sunny'', Risk = 20\<rparr>\<rparr> None
   = (None, Loaded [St_success ''Uploaded CSV loaded successfully!'']
        [(''Timestamp'', [StrCell ''09:00:00'']), (''Vibration'', [FltCell (2 / 5)])])
   \<and> current_risk [(''Timestamp'', [StrCell ''09:00:00'']), (''Vibration'', [FltCell (2 / 5)])]
     = Raised (KeyError ''Risk'')"
  by (simp add: data_source_def current_risk_def getitem_def)

text \<open>
  C9, amended. The upload source stops the run with a warning when no file has been
  supplied, and the preloaded source stops the run with an error notice whenever
  reading the file raises. A dataset that \<^verbatim>\<open>pd.read_csv\<close> returns is accepted
  with a success notice whatever its columns and rows, and the session window is
  untouched in every case. A missing required column or a Risk column without rows
  shows only afterwards: the run then ends in an exception that nothing catches. A
  missing Risk column is a KeyError at line 161 and a Risk column without rows an
  IndexError there; a missing Timestamp, Weather, Vibration or Slope column is a
  KeyError at the line that first reads it (166, 167, 179, 185), unless an earlier
  line has already raised.
\<close>

theorem dataset_loading:
  "data_source (i\<lparr>mode := Upload_CSV, uploaded := None\<rparr>) st
     = (st, Stopped (St_warning ''Please upload a CSV to continue.''))
   \<and> data_source (i\<lparr>mode := Upload_CSV, uploaded := Some (Returned df)\<rparr>) st
     = (st, Loaded [St_success ''Uploaded CSV loaded successfully!''] df)
   \<and> data_source (i\<lparr>mode := Preloaded_CSV, preloaded := Raised e\<rparr>) st
     = (st, Stopped (St_error ''Preloaded file 'mine_sensor_data.csv' not found.''))
   \<and> data_source (i\<lparr>mode := Preloaded_CSV, preloaded := Returned df\<rparr>) st
     = (st, Loaded [St_success ''Preloaded CSV loaded successfully!''] df)
   \<and> (map_of df ''Risk'' = None \<longrightarrow> current_risk df = Raised (KeyError ''Risk''))
   \<and> (map_of df ''Risk'' = Some [] \<longrightarrow> current_risk df = Raised IndexError)
   \<and> ((\<exists>c\<in>set required_columns. map_of df c = None) \<longrightarrow> render lib df \<noteq> None)
   \<and> (map_of df ''Risk'' = None \<longrightarrow> render lib df = Some (KeyError ''Risk''))
   \<and> (map_of df ''Risk'' = Some [] \<longrightarrow> render lib df = Some IndexError)
   \<and> (map_of df ''Timestamp'' = None \<and> first_exn (take 3 (steps lib df)) = None
        \<longrightarrow> render lib df = Some (KeyError ''Timestamp''))
   \<and> (map_of df ''Weather'' = None \<and> first_exn (take 5 (steps lib df)) = None
        \<longrightarrow> render lib df = Some (KeyError ''Weather''))
   \<and> (map_of df ''Vibration'' = None \<and> first_exn (take 8 (steps lib df)) = None
        \<longrightarrow> render lib df = Some (KeyError ''Vibration''))
   \<and> (map_of df ''Slope'' = None \<and> first_exn (take 10 (steps lib df)) = None
        \<longrightarrow> render lib df = Some (KeyError ''Slope''))"
proof -
  have load: "data_source (i\<lparr>mode := Upload_CSV, uploaded := None\<rparr>) st
       = (st, Stopped (St_warning ''Please upload a CSV to continue.''))
     \<and> data_source (i\<lparr>mode := Upload_CSV, uploaded := Some (Returned df)\<rparr>) st
       = (st, Loaded [St_success ''Uploaded CSV loaded successfully!''] df)
     \<and> data_source (i\<lparr>mode := Preloaded_CSV, preloaded := Raised e\<rparr>) st
       = (st, Stopped (St_error ''Preloaded file 'mine_sensor_data.csv' not found.''))
     \<and> data_source (i\<lparr>mode := Preloaded_CSV, preloaded := Returned df\<rparr>) st
       = (st, Loaded [St_success ''Preloaded CSV loaded successfully!''] df)"
    by (simp add: data_source_def)
  have risk: "(map_of df ''Risk'' = None \<longrightarrow> current_risk df = Raised (KeyError ''Risk''))
     \<and> (map_of df ''Risk'' = Some [] \<longrightarrow> current_risk df = Raised IndexError)"
    by (simp add: current_risk_def getitem_def iloc_last_def)
  have any: "(\<exists>c\<in>set required_columns. map_of df c = None) \<longrightarrow> render lib df \<noteq> None"
    using render_missing by blast
  have r1: "map_of df ''Risk'' = None \<longrightarrow> render lib df = Some (KeyError ''Risk'')"
    by (simp add: render_def steps_def current_risk_missing)
  have r2: "map_of df ''Risk'' = Some [] \<longrightarrow> render lib df = Some IndexError"
    by (simp add: render_def steps_def current_risk_def getitem_def iloc_last_def raised_def)
  have r3: "map_of df ''Timestamp'' = None \<and> first_exn (take 3 (steps lib df)) = None
        \<longrightarrow> render lib df = Some (KeyError ''Timestamp'')"
    by (simp add: render_def steps_def first_exn_None_iff last_of_missing)
  have r4: "map_of df ''Weather'' = None \<and> first_exn (take 5 (steps lib df)) = None
        \<longrightarrow> render lib df = Some (KeyError ''Weather'')"
    by (simp add: render_def steps_def first_exn_None_iff last_of_missing)
  have r5: "map_of df ''Vibration'' = None \<and> first_exn (take 8 (steps lib df)) = None
        \<longrightarrow> render lib df = Some (KeyError ''Vibration'')"
    by (simp add: render_def steps_def first_exn_None_iff getitem_missing)
  have r6: "map_of df ''Slope'' = None \<and> first_exn (take 10 (steps lib df)) = None
        \<longrightarrow> render lib df = Some (KeyError ''Slope'')"
    by (simp add: render_def steps_def first_exn_None_iff getitem_missing)
  show ?thesis using load risk any r1 r2 r3 r4 r5 r6 by blast
qed

text \<open>
  The hypotheses of C9: a frame without a Risk column, a frame whose Risk column has
  no rows, and frames that lack one of the other four columns, read when no library
  call raises.
\<close>

theorem dataset_loading_witness:
  "(let quiet = (\<lambda>n df. None);
        ts = (''Timestamp'', [StrCell ''09:00:00'']);
        vib = (''Vibration'', [FltCell (2 / 5)]);
        slope = (''Slope'', [FltCell 44]);
        weather = (''Weather'', [StrCell ''Rainy'']);
        risk = (''Risk'', [IntCell 55])
    in map_of [ts, vib, slope, weather] ''Risk'' = None
       \<and> (\<exists>c\<in>set required_columns. map_of [ts, vib, slope, weather] c = None)
       \<and> render quiet [ts, vib, slope, weather] = Some (KeyError ''Risk'')
       \<and> map_of [ts, (''Risk'', [])] ''Risk'' = Some []
       \<and> render quiet [ts, (''Risk'', [])] = Some IndexError
       \<and> map_of [vib, slope, weather, risk] ''Timestamp'' = None
       \<and> first_exn (take 3 (steps quiet [vib, slope, weather, risk])) = None
       \<and> render quiet [vib, slope, weather, risk] = Some (KeyError ''Timestamp'')
       \<and> map_of [ts, vib, slope, risk] ''Weather'' = None
       \<and> first_exn (take 5 (steps quiet [ts, vib, slope, risk])) = None
       \<and> render quiet [ts, vib, slope, risk] = Some (KeyError ''Weather'')
       \<and> map_of [ts, slope, weather, risk] ''Vibration'' = None
       \<and> first_exn (take 8 (steps quiet [ts, slope, weather, risk])) = None
       \<and> render quiet [ts, slope, weather, risk] = Some (KeyError ''Vibration'')
       \<and> map_of [ts, vib, weather, risk] ''Slope'' = None
       \<and> first_exn (take 10 (steps quiet [ts, vib, weather, risk])) = None
       \<and> render quiet [ts, vib, weather, risk] = Some (KeyError ''Slope''))"
proof -
  define quiet :: "nat \<Rightarrow> frame \<Rightarrow> exn option" where "quiet = (\<lambda>n df. None)"
  define ts where "ts = (''Timestamp'', [StrCell ''09:00:00''])"
  define vib where "vib = (''Vibration'', [FltCell (2 / 5)])"
  define slope where "slope = (''Slope'', [FltCell 44])"
  define weather where "weather = (''Weather'', [StrCell ''Rainy''])"
  define risk where "risk = (''Risk'', [IntCell 55])"
  note cols = ts_def vib_def slope_def weather_def risk_def
  note ev = steps_def quiet_def current_risk_def last_of_def getitem_def iloc_last_def
    raised_def
  have h1: "map_of [ts, vib, slope, weather] ''Risk'' = None" by (simp add: cols)
  have h1': "\<exists>c\<in>set required_columns. map_of [ts, vib, slope, weather] c = None"
    using h1 by (auto simp: required_columns_def)
  have h2: "map_of [ts, (''Risk'', [])] ''Risk'' = Some []" by (simp add: cols)
  have h3: "map_of [vib, slope, weather, risk] ''Timestamp'' = None
      \<and> first_exn (take 3 (steps quiet [vib, slope, weather, risk])) = None"
    by (simp add: cols ev)
  have h4: "map_of [ts, vib, slope, risk] ''Weather'' = None
      \<and> first_exn (take 5 (steps quiet [ts, vib, slope, risk])) = None"
    by (simp add: cols ev)
  have h5: "map_of [ts, slope, weather, risk] ''Vibration'' = None
      \<and> first_exn (take 8 (steps quiet [ts, slope, weather, risk])) = None"
    by (simp add: cols ev)
  have h6: "map_of [ts, vib, weather, risk] ''Slope'' = None
      \<and> first_exn (take 10 (steps quiet [ts, vib, weather, risk])) = None"
    by (simp add: cols ev)
  show ?thesis
    unfolding Let_def quiet_def[symmetric] cols[symmetric]
    using dataset_loading [of _ _ "[ts, vib, slope, weather]" _ quiet]
          dataset_loading [of _ _ "[ts, (''Risk'', [])]" _ quiet]
          dataset_loading [of _ _ "[vib, slope, weather, risk]" _ quiet]
          dataset_loading [of _ _ "[ts, vib, slope, risk]" _ quiet]
          dataset_loading [of _ _ "[ts, slope, weather, risk]" _ quiet]
          dataset_loading [of _ _ "[ts, vib, weather, risk]" _ quiet]
          h1 h1' h2 h3 h4 h5 h6
    by simp
qed

subsection \<open>Trend bands\<close>

text \<open>
  C6, as stated, fails: for a column without values the band is not an error. The
  two quantiles, the minimum and the maximum are all NaN; the interpolation is not
  reached.
\<close>

theorem band_empty_returns_nan:
  "band interp_unused [] (3 / 10) (7 / 10) = Returned (NaN, NaN, NaN, NaN)
   \<and> trend_chart_band interp_unused [] = Returned (NaN, NaN, NaN, NaN)"
  by (simp add: trend_chart_band_def band_def quantile_def series_min_def series_max_def)

text \<open>
  C6, amended. For a column without values and quantile levels within 0 and 1 the
  band raises nothing and returns four NaN values, whatever the interpolation.
\<close>

theorem band_empty:
  "0 \<le> low_q \<Longrightarrow> low_q \<le> 1 \<Longrightarrow> 0 \<le> high_q \<Longrightarrow> high_q \<le> 1 \<Longrightarrow>
     band interp [] low_q high_q = Returned (NaN, NaN, NaN, NaN)"
  by (simp add: band_def quantile_def series_min_def series_max_def)

text \<open>
  The hypotheses of C6 at the levels 0.3 and 0.7 of the script.
\<close>

theorem band_empty_witness:
  "(0::real) \<le> 3 / 10 \<and> (3 / 10 :: real) \<le> 1 \<and> (0::real) \<le> 7 / 10 \<and> (7 / 10 :: real) \<le> 1
   \<and> band interp_unused [] (3 / 10) (7 / 10) = Returned (NaN, NaN, NaN, NaN)"
  using band_empty [of "3 / 10" "7 / 10" interp_unused] by simp

end
